theory Spec2Isabelle
  imports Complex_Main
begin

section \<open>exceltools: the address codec and validators of \<^verbatim>\<open>src/exceltools.py\<close>\<close>

text \<open>
  The embedding follows the Python source function by function. Python's unbounded
  integers are \<open>int\<close>; a Python \<open>str\<close> is a \<open>string\<close> with one \<open>char\<close> per code
  point, so the model speaks about the strings whose code points lie in 0..255.
  Every \<^verbatim>\<open>raise\<close> and every exception of a builtin is a value \<open>Inl e\<close> of a sum type.
\<close>

subsection \<open>Values and exceptions\<close>

text \<open>
  The arguments the validators receive are untyped in the source; the model covers
  \<^verbatim>\<open>None\<close>, \<^verbatim>\<open>int\<close> and \<^verbatim>\<open>str\<close> arguments.
\<close>

datatype pyval = PNone | PInt int | PStr string

text \<open>
  The exception classes that the modelled code can raise. Python's \<^verbatim>\<open>TypeError\<close>
  carries the place it comes from, so that two different type errors stay apart:
  \<^item> \<open>Unorderable l r\<close>: \<^verbatim>\<open>'>' not supported between instances of 'l' and 'r'\<close>,
    with the types of the left and the right operand of the comparison;
  \<^item> \<open>InitNeedsArgument\<close>: \<^verbatim>\<open>descriptor '__init__' of 'Exception' object needs an argument\<close>;
  \<^item> \<open>ExpectedString\<close>: \<^verbatim>\<open>re.match\<close> on a value that is not a string;
  \<^item> \<open>NotSubscriptable\<close>: \<^verbatim>\<open>cellref[0]\<close> on a value that is not a string;
  \<^item> \<open>MustSupplyDate\<close>: the \<^verbatim>\<open>TypeError\<close> that \<^verbatim>\<open>excel_date\<close> raises itself.
\<close>

datatype pytype = NoneType | IntType

datatype type_error =
    Unorderable pytype pytype
  | InitNeedsArgument
  | ExpectedString
  | NotSubscriptable
  | MustSupplyDate

datatype error =
    ValueError
  | TypeError type_error
  | AttributeError
  | IndexError
  | NoWorkbookError
  | InvalidSheetError
  | InvalidCellRefError
  | InvalidRangeError

definition ebind :: "error + 'a \<Rightarrow> ('a \<Rightarrow> error + 'b) \<Rightarrow> error + 'b" where
  "ebind m f = (case m of Inl e \<Rightarrow> Inl e | Inr x \<Rightarrow> f x)"

definition of_opt :: "int option \<Rightarrow> pyval" where
  "of_opt v = (case v of None \<Rightarrow> PNone | Some n \<Rightarrow> PInt n)"

subsection \<open>Column letters and column numbers (lines 32--57 and 207--228)\<close>

text \<open>
  \<^verbatim>\<open>
  expn = 0
  col_num = 0
  for char in reversed(col_str):
      col_num += (ord(char) - ord("A") + 1) * (26 ** expn)
      expn += 1
  return col_num
  \<close>
  The loop runs over the reversed string with the state \<open>(expn, col_num)\<close>.
\<close>

fun col2num_loop :: "string \<Rightarrow> nat \<Rightarrow> int \<Rightarrow> int" where
  "col2num_loop [] expn col_num = col_num"
| "col2num_loop (char # rest) expn col_num =
     col2num_loop rest (expn + 1)
       (col_num + (of_char char - of_char (CHR ''A'') + 1) * 26 ^ expn)"

text \<open>The static method \<^verbatim>\<open>ExcelSpreadSheet.col2num\<close>: no check; its callers pass a string.\<close>

definition xl_col2num :: "string \<Rightarrow> int" where
  "xl_col2num col_str = col2num_loop (rev col_str) 0 0"

text \<open>The module-level \<^verbatim>\<open>col2num\<close>: the same loop behind an \<^verbatim>\<open>isinstance(col_str, str)\<close> test.\<close>

definition col2num :: "pyval \<Rightarrow> error + int" where
  "col2num col_str =
     (case col_str of
        PStr s \<Rightarrow> Inr (col2num_loop (rev s) 0 0)
      | _ \<Rightarrow> Inl ValueError)"

text \<open>
  \<^verbatim>\<open>
  col_str = ""
  while col_int > 0:
      col_int, remainder = divmod(col_int - 1, 26)
      col_str = chr(65 + remainder) + col_str
  return col_str
  \<close>
  Python's \<^verbatim>\<open>divmod\<close> on integers with a positive divisor is \<open>div\<close> and \<open>mod\<close> on \<open>int\<close>.
\<close>

function num2col_loop :: "int \<Rightarrow> string \<Rightarrow> string" where
  "num2col_loop col_int col_str =
     (if col_int > 0
      then num2col_loop ((col_int - 1) div 26) (char_of (65 + (col_int - 1) mod 26) # col_str)
      else col_str)"
  by pat_completeness auto
termination
  by (relation "measure (\<lambda>(col_int, col_str). nat col_int)") auto

declare num2col_loop.simps [simp del]

text \<open>
  The static method \<^verbatim>\<open>ExcelSpreadSheet.num2col\<close>: no check. It is called on a
  validated column, an integer or \<^verbatim>\<open>None\<close>; on \<^verbatim>\<open>None\<close> the loop test
  \<^verbatim>\<open>col_int > 0\<close> raises the \<^verbatim>\<open>TypeError\<close> of \<^verbatim>\<open>None\<close> against an integer.
\<close>

definition xl_num2col :: "int option \<Rightarrow> error + string" where
  "xl_num2col col_int =
     (case col_int of
        Some n \<Rightarrow> Inr (num2col_loop n [])
      | None \<Rightarrow> Inl (TypeError (Unorderable NoneType IntType)))"

text \<open>The module-level \<^verbatim>\<open>num2col\<close>: the same loop behind an \<^verbatim>\<open>isinstance(col_int, int)\<close> test.\<close>

definition num2col :: "pyval \<Rightarrow> error + string" where
  "num2col col_int =
     (case col_int of
        PInt n \<Rightarrow> Inr (num2col_loop n [])
      | _ \<Rightarrow> Inl ValueError)"

text \<open>The composition \<^verbatim>\<open>num2col(col2num(s))\<close> of the module-level functions.\<close>

definition num2col_of_col2num :: "pyval \<Rightarrow> error + string" where
  "num2col_of_col2num s = ebind (col2num s) (\<lambda>n. num2col (PInt n))"

text \<open>Character classes, on \<^verbatim>\<open>ord(c)\<close>.\<close>

definition is_upper :: "char \<Rightarrow> bool" where
  "is_upper c = (65 \<le> (of_char c :: int) \<and> (of_char c :: int) \<le> 90)"

definition is_lower :: "char \<Rightarrow> bool" where
  "is_lower c = (97 \<le> (of_char c :: int) \<and> (of_char c :: int) \<le> 122)"

definition is_letter :: "char \<Rightarrow> bool" where
  "is_letter c = (is_upper c \<or> is_lower c)"

definition is_digit :: "char \<Rightarrow> bool" where
  "is_digit c = (48 \<le> (of_char c :: int) \<and> (of_char c :: int) \<le> 57)"

definition is_alnum :: "char \<Rightarrow> bool" where
  "is_alnum c = (is_letter c \<or> is_digit c)"

text \<open>
  \<^verbatim>\<open>s.upper()\<close> for a string of ASCII letters: a small letter is moved down by 32.
  Other characters are left as they are, so the definition is used on letters only.
\<close>

definition ascii_upper :: "string \<Rightarrow> string" where
  "ascii_upper s = map (\<lambda>c. if is_lower c then char_of (of_char c - 32 :: int) else c) s"

subsection \<open>Builtins: \<^verbatim>\<open>str(int)\<close> and \<^verbatim>\<open>int(str)\<close>\<close>

text \<open>\<^verbatim>\<open>str(n)\<close> for an integer: the decimal digits, with a minus sign below zero.\<close>

fun digits_of :: "nat \<Rightarrow> string" where
  "digits_of n =
     (if n < 10 then [char_of (48 + n)]
      else digits_of (n div 10) @ [char_of (48 + n mod 10)])"

declare digits_of.simps [simp del]

definition py_str :: "int \<Rightarrow> string" where
  "py_str n = (if n < 0 then CHR ''-'' # digits_of (nat (- n)) else digits_of (nat n))"

text \<open>\<^verbatim>\<open>str\<close> of a validated row: \<^verbatim>\<open>str(None)\<close> is \<^verbatim>\<open>"None"\<close>.\<close>

definition py_str_opt :: "int option \<Rightarrow> string" where
  "py_str_opt v = (case v of None \<Rightarrow> ''None'' | Some n \<Rightarrow> py_str n)"

text \<open>
  \<^verbatim>\<open>int(s)\<close> for a string, base 10: white space around the literal is dropped (for
  code points up to 255 these are 9..13, 32, 133 and 160), then an optional sign, then
  decimal digits, where single underscores may stand between two digits. \<open>None\<close>
  stands for the \<^verbatim>\<open>ValueError\<close> of a literal that does not parse. The limit that
  recent interpreters put on the number of digits is left out.
\<close>

definition int_space :: "char \<Rightarrow> bool" where
  "int_space c =
     (let n = (of_char c :: int)
      in (9 \<le> n \<and> n \<le> 13) \<or> n = 32 \<or> n = 133 \<or> n = 160)"

definition strip_space :: "string \<Rightarrow> string" where
  "strip_space s = rev (dropWhile int_space (rev (dropWhile int_space s)))"

fun int_digits :: "string \<Rightarrow> bool \<Rightarrow> int \<Rightarrow> int option" where
  "int_digits [] after_digit acc = (if after_digit then Some acc else None)"
| "int_digits (c # cs) after_digit acc =
     (if is_digit c then int_digits cs True (acc * 10 + (of_char c - 48))
      else if c = CHR ''_'' \<and> after_digit then int_digits cs False acc
      else None)"

definition py_int :: "string \<Rightarrow> int option" where
  "py_int s =
     (case strip_space s of
        [] \<Rightarrow> None
      | c # r \<Rightarrow>
          if c = CHR ''+'' then int_digits r False 0
          else if c = CHR ''-'' then map_option uminus (int_digits r False 0)
          else int_digits (c # r) False 0)"

subsection \<open>The regular expressions (lines 149--151, 269)\<close>

text \<open>
  The patterns are matched with \<^verbatim>\<open>re.match\<close>, from the start of the string, without
  flags. Over the code points up to 255, \<^verbatim>\<open>\d\<close> is \<^verbatim>\<open>[0-9]\<close>. Without the
  \<^verbatim>\<open>MULTILINE\<close> flag, \<^verbatim>\<open>$\<close> matches at the end of the string and also just before
  a newline that is the last character. A run \<^verbatim>\<open>[a-zA-Z]{1,3}\<close> or \<^verbatim>\<open>\d+\<close> is
  followed in each pattern by something that matches neither a letter nor a digit of
  the run, so the run that matches is the longest one.
\<close>

definition at_dollar :: "string \<Rightarrow> bool" where
  "at_dollar rest = (rest = [] \<or> rest = [CHR 0x0A])"

definition letters13 :: "string \<Rightarrow> (string \<times> string) option" where
  "letters13 s =
     (let run = takeWhile is_letter s
      in if 1 \<le> length run \<and> length run \<le> 3 then Some (run, dropWhile is_letter s) else None)"

definition digits1 :: "string \<Rightarrow> (string \<times> string) option" where
  "digits1 s =
     (let run = takeWhile is_digit s
      in if 1 \<le> length run then Some (run, dropWhile is_digit s) else None)"

definition colon :: "string \<Rightarrow> string option" where
  "colon s = (case s of [] \<Rightarrow> None | c # rest \<Rightarrow> if c = CHR '':'' then Some rest else None)"

text \<open>\<^verbatim>\<open>_cell_regex = ^[a-zA-Z]{1}\d+$\<close>: whether \<^verbatim>\<open>re.match\<close> finds a match.\<close>

definition cell_regex_match :: "string \<Rightarrow> bool" where
  "cell_regex_match s =
     (case s of
        [] \<Rightarrow> False
      | c # rest \<Rightarrow>
          is_letter c \<and> (case digits1 rest of None \<Rightarrow> False | Some (ds, rest') \<Rightarrow> at_dollar rest'))"

text \<open>
  \<^verbatim>\<open>_range_regex\<close>, first alternative
  \<^verbatim>\<open>(^[a-zA-Z]{1,3})(\d+):([a-zA-Z]{1,3})(\d+$)\<close>: the groups 1 to 4.
\<close>

definition range_regex_bounded :: "string \<Rightarrow> (string \<times> string \<times> string \<times> string) option" where
  "range_regex_bounded s =
     (case letters13 s of None \<Rightarrow> None | Some (g1, s1) \<Rightarrow>
      case digits1 s1 of None \<Rightarrow> None | Some (g2, s2) \<Rightarrow>
      case colon s2 of None \<Rightarrow> None | Some s3 \<Rightarrow>
      case letters13 s3 of None \<Rightarrow> None | Some (g3, s4) \<Rightarrow>
      case digits1 s4 of None \<Rightarrow> None | Some (g4, s5) \<Rightarrow>
      if at_dollar s5 then Some (g1, g2, g3, g4) else None)"

text \<open>Second alternative \<^verbatim>\<open>(^[a-zA-Z]{1,3}:[a-zA-Z]{1,3}$)\<close>: the group 5.\<close>

definition range_regex_columns :: "string \<Rightarrow> string option" where
  "range_regex_columns s =
     (case letters13 s of None \<Rightarrow> None | Some (l1, s1) \<Rightarrow>
      case colon s1 of None \<Rightarrow> None | Some s2 \<Rightarrow>
      case letters13 s2 of None \<Rightarrow> None | Some (l2, s3) \<Rightarrow>
      if at_dollar s3 then Some (l1 @ '':'' @ l2) else None)"

text \<open>
  The match object of \<^verbatim>\<open>re.match(self._range_regex, _range)\<close>: \<open>None\<close> when nothing
  matches, else the five groups, a group outside the alternative that matched being
  \<^verbatim>\<open>None\<close>.
\<close>

record range_match =
  group1 :: "string option"
  group2 :: "string option"
  group3 :: "string option"
  group4 :: "string option"
  group5 :: "string option"

definition range_regex_match :: "string \<Rightarrow> range_match option" where
  "range_regex_match s =
     (case range_regex_bounded s of
        Some (g1, g2, g3, g4) \<Rightarrow>
          Some \<lparr>group1 = Some g1, group2 = Some g2, group3 = Some g3, group4 = Some g4,
                group5 = None\<rparr>
      | None \<Rightarrow>
          (case range_regex_columns s of
             Some g5 \<Rightarrow>
               Some \<lparr>group1 = None, group2 = None, group3 = None, group4 = None,
                     group5 = Some g5\<rparr>
           | None \<Rightarrow> None))"

definition of_group :: "string option \<Rightarrow> pyval" where
  "of_group g = (case g of None \<Rightarrow> PNone | Some s \<Rightarrow> PStr s)"

subsection \<open>The exception classes of the module (lines 89--114)\<close>

text \<open>
  \<^verbatim>\<open>
  class Error(Exception):
      def __init__(self, msg, *args):
          Exception.__init__()
          self.what = msg.format(*args)
  class InvalidCellRefError(Error): ...
  class InvalidRangeError(Error): ...
  \<close>
  \<^verbatim>\<open>Exception.__init__()\<close> is called on the class, without an instance: Python raises
  \<^verbatim>\<open>TypeError: descriptor '__init__' of 'Exception' object needs an argument\<close>.
  \<open>Error_init cls\<close> is the outcome of constructing an instance of the subclass
  \<open>cls\<close> of \<^verbatim>\<open>Error\<close>: the constructor never returns the instance.
\<close>

definition Exception_init_no_instance :: "error + unit" where
  "Exception_init_no_instance = Inl (TypeError InitNeedsArgument)"

definition Error_init :: "error \<Rightarrow> error + error" where
  "Error_init cls = ebind Exception_init_no_instance (\<lambda>_. Inr cls)"

text \<open>
  \<^verbatim>\<open>raise Cls("...")\<close>: the constructor call is evaluated first, and an exception
  raised inside it is the one that propagates.
\<close>

definition raise_new :: "error \<Rightarrow> error + 'a" where
  "raise_new cls = (case Error_init cls of Inl e \<Rightarrow> Inl e | Inr exn \<Rightarrow> Inl exn)"

subsection \<open>\<^verbatim>\<open>_validate_column\<close> and \<^verbatim>\<open>_validate_row\<close> (lines 261--298)\<close>

text \<open>
  Both return \<^verbatim>\<open>None\<close> for \<^verbatim>\<open>None\<close> and an integer otherwise. The last test of
  \<^verbatim>\<open>_validate_column\<close> is \<^verbatim>\<open>col > 18278\<close>; there is no test against a lower bound.
\<close>

definition column_bound :: "int \<Rightarrow> error + int option" where
  "column_bound col = (if col > 18278 then Inl ValueError else Inr (Some col))"

definition validate_column :: "pyval \<Rightarrow> error + int option" where
  "validate_column col =
     (case col of
        PNone \<Rightarrow> Inr None
      | PStr s \<Rightarrow>
          if list_ex (\<lambda>c. \<not> is_alnum c) s then Inl ValueError
          else if length s > 3 then Inl ValueError
          else column_bound (xl_col2num s)
      | PInt n \<Rightarrow> column_bound n)"

definition validate_row :: "pyval \<Rightarrow> error + int option" where
  "validate_row row =
     (case row of
        PNone \<Rightarrow> Inr None
      | PInt n \<Rightarrow> Inr (Some n)
      | PStr s \<Rightarrow> (case py_int s of None \<Rightarrow> Inl ValueError | Some n \<Rightarrow> Inr (Some n)))"

subsection \<open>\<^verbatim>\<open>_validate_cellref\<close> (lines 318--338)\<close>

text \<open>
  The third test calls \<^verbatim>\<open>re.match\<close> only when the conjuncts before it hold
  (\<^verbatim>\<open>and\<close> evaluates from the left and stops early).
\<close>

definition cellref_invalid :: "pyval \<Rightarrow> pyval \<Rightarrow> pyval \<Rightarrow> error + bool" where
  "cellref_invalid cellref row col =
     (if row = PNone \<and> col = PNone \<and> cellref \<noteq> PNone
      then (case cellref of
              PStr s \<Rightarrow> Inr (\<not> cell_regex_match s)
            | _ \<Rightarrow> Inl (TypeError ExpectedString))
      else Inr False)"

text \<open>
  \<^verbatim>\<open>col, row = cellref[0], int(cellref[1])\<close>: the first character, and the integer
  read from the second character alone; the pair returned is \<^verbatim>\<open>(row, col)\<close>.
\<close>

definition cellref_split :: "pyval \<Rightarrow> error + (pyval \<times> pyval)" where
  "cellref_split cellref =
     (case cellref of
        PStr s \<Rightarrow>
          (case s of
             [] \<Rightarrow> Inl IndexError
           | c0 # rest \<Rightarrow>
               (case rest of
                  [] \<Rightarrow> Inl IndexError
                | c1 # _ \<Rightarrow>
                    (case py_int [c1] of
                       None \<Rightarrow> Inl ValueError
                     | Some row \<Rightarrow> Inr (PInt row, PStr [c0]))))
      | _ \<Rightarrow> Inl (TypeError NotSubscriptable))"

definition validate_cellref :: "pyval \<Rightarrow> pyval \<Rightarrow> pyval \<Rightarrow> error + (pyval \<times> pyval)" where
  "validate_cellref cellref row col =
     (if row = PNone \<and> col = PNone \<and> cellref = PNone
      then raise_new InvalidCellRefError
      else if row \<noteq> PNone \<and> col \<noteq> PNone \<and> cellref \<noteq> PNone
      then raise_new InvalidCellRefError
      else ebind (cellref_invalid cellref row col) (\<lambda>invalid.
        if invalid then raise_new InvalidCellRefError
        else if cellref = PNone
        then ebind (validate_row row) (\<lambda>row'.
             ebind (validate_column col) (\<lambda>col'.
             Inr (of_opt row', of_opt col')))
        else cellref_split cellref))"

subsection \<open>\<^verbatim>\<open>_validate_range\<close> (lines 340--386)\<close>

text \<open>
  \<^verbatim>\<open>a > b\<close> on validated coordinates: integers compare, \<^verbatim>\<open>None\<close> does not, and
  the \<^verbatim>\<open>TypeError\<close> names the types of the two operands.
\<close>

definition py_gt :: "int option \<Rightarrow> int option \<Rightarrow> error + bool" where
  "py_gt a b =
     (case a of
        Some x \<Rightarrow>
          (case b of
             Some y \<Rightarrow> Inr (x > y)
           | None \<Rightarrow> Inl (TypeError (Unorderable IntType NoneType)))
      | None \<Rightarrow>
          (case b of
             Some y \<Rightarrow> Inl (TypeError (Unorderable NoneType IntType))
           | None \<Rightarrow> Inl (TypeError (Unorderable NoneType NoneType))))"

text \<open>
  The branch taken for a range text without coordinates. \<^verbatim>\<open>match.group(1)\<close> is
  evaluated before the test \<^verbatim>\<open>if match is None\<close>: on \<^verbatim>\<open>None\<close> it raises
  \<^verbatim>\<open>AttributeError\<close>, so the \<^verbatim>\<open>raise InvalidRangeError\<close> behind that test is never
  reached.
\<close>

definition validate_range_text :: "pyval \<Rightarrow> error + pyval" where
  "validate_range_text rng =
     (case rng of
        PStr s \<Rightarrow>
          (case range_regex_match s of
             None \<Rightarrow> Inl AttributeError
           | Some m \<Rightarrow>
               if group5 m \<noteq> None then Inr rng
               else
                 ebind (validate_column (of_group (group1 m))) (\<lambda>col_1.
                 ebind (validate_column (of_group (group3 m))) (\<lambda>col_2.
                 ebind (validate_row (of_group (group2 m))) (\<lambda>row_1.
                 ebind (validate_row (of_group (group4 m))) (\<lambda>row_2.
                 ebind (py_gt col_1 col_2) (\<lambda>cols_inverted.
                 if cols_inverted then raise_new InvalidRangeError
                 else ebind (py_gt row_1 row_2) (\<lambda>rows_inverted.
                 if rows_inverted then raise_new InvalidRangeError
                 else Inr rng)))))))
      | _ \<Rightarrow> Inl (TypeError ExpectedString))"

text \<open>The branch taken otherwise, on the validated coordinates.\<close>

definition validate_range_coords ::
  "pyval \<Rightarrow> int option \<Rightarrow> int option \<Rightarrow> int option \<Rightarrow> int option \<Rightarrow> error + pyval" where
  "validate_range_coords rng startrow endrow startcol endcol =
     (let coords = [startrow, endrow, startcol, endcol]
      in if list_ex (\<lambda>coord. coord \<noteq> None) coords \<and> list_ex (\<lambda>coord. coord = None) coords
         then raise_new InvalidRangeError
         else if list_all (\<lambda>coord. coord \<noteq> None) coords \<and> rng \<noteq> PNone
         then raise_new InvalidRangeError
         else ebind (py_gt startcol endcol) (\<lambda>cols_inverted.
           if cols_inverted then raise_new InvalidRangeError
           else ebind (py_gt startrow endrow) (\<lambda>rows_inverted.
           if rows_inverted then raise_new InvalidRangeError
           else ebind (xl_num2col startcol) (\<lambda>c1.
                ebind (xl_num2col endcol) (\<lambda>c2.
                Inr (PStr (c1 @ py_str_opt startrow @ '':'' @ c2 @ py_str_opt endrow)))))))"

text \<open>
  \<^verbatim>\<open>_validate_range(_range, startrow, endrow, startcol, endcol)\<close>: the two columns
  are validated first, then the two rows.
\<close>

definition validate_range :: "pyval \<Rightarrow> pyval \<Rightarrow> pyval \<Rightarrow> pyval \<Rightarrow> pyval \<Rightarrow> error + pyval" where
  "validate_range rng startrow endrow startcol endcol =
     ebind (validate_column startcol) (\<lambda>startcol'.
     ebind (validate_column endcol) (\<lambda>endcol'.
     ebind (validate_row startrow) (\<lambda>startrow'.
     ebind (validate_row endrow) (\<lambda>endrow'.
       if rng \<noteq> PNone
          \<and> list_all (\<lambda>coord. coord = None) [startrow', endrow', startcol', endcol']
       then validate_range_text rng
       else validate_range_coords rng startrow' endrow' startcol' endcol'))))"

subsection \<open>The guards of \<^verbatim>\<open>read_dataframe\<close> (lines 98--105, 300--316, 744--746)\<close>

text \<open>
  The part of the object that the guards read: \<^verbatim>\<open>_wb_open\<close>, set to 1 by
  \<^verbatim>\<open>open\<close>, and the list \<^verbatim>\<open>sheetnames\<close>.
\<close>

record workbook_state =
  wb_open :: int
  sheetnames :: "string list"

text \<open>
  \<^verbatim>\<open>NoWorkbookError.__init__\<close> starts with the same \<^verbatim>\<open>Exception.__init__()\<close> as
  \<^verbatim>\<open>Error.__init__\<close>.
\<close>

definition NoWorkbookError_init :: "error + error" where
  "NoWorkbookError_init = ebind Exception_init_no_instance (\<lambda>_. Inr NoWorkbookError)"

definition validate_workbook :: "workbook_state \<Rightarrow> error + unit" where
  "validate_workbook st =
     (if wb_open st = 0
      then (case NoWorkbookError_init of Inl e \<Rightarrow> Inl e | Inr exn \<Rightarrow> Inl exn)
      else Inr ())"

definition validate_worksheet :: "workbook_state \<Rightarrow> pyval \<Rightarrow> error + unit" where
  "validate_worksheet st sheet =
     (case sheet of
        PStr s \<Rightarrow> if s \<notin> set (sheetnames st) then raise_new InvalidSheetError else Inr ()
      | PInt n \<Rightarrow> if int (length (sheetnames st)) < n then raise_new InvalidSheetError else Inr ()
      | PNone \<Rightarrow> Inr ())"

text \<open>
  \<^verbatim>\<open>read_dataframe\<close> up to the value it passes to the spreadsheet host: the two
  guards, then \<^verbatim>\<open>_validate_range\<close> on the range arguments.
\<close>

definition read_dataframe_range ::
  "workbook_state \<Rightarrow> pyval \<Rightarrow> pyval \<Rightarrow> pyval \<Rightarrow> pyval \<Rightarrow> pyval \<Rightarrow> pyval \<Rightarrow> error + pyval" where
  "read_dataframe_range st sheet excel_range startrow endrow startcol endcol =
     ebind (validate_workbook st) (\<lambda>_.
     ebind (validate_worksheet st sheet) (\<lambda>_.
     validate_range excel_range startrow endrow startcol endcol))"

subsection \<open>\<^verbatim>\<open>excel_date\<close> (lines 72--87 and 243--259)\<close>

text \<open>
  The values of the standard library: a \<^verbatim>\<open>date\<close>, a \<^verbatim>\<open>time\<close>, a \<^verbatim>\<open>datetime\<close>
  (a subclass of \<^verbatim>\<open>date\<close>, so that \<^verbatim>\<open>isinstance(x, dt.date)\<close> holds for it too)
  and a normalised \<^verbatim>\<open>timedelta\<close>. Only naive values are modelled.
\<close>

datatype date = Date (year: int) (month: int) (day: int)

datatype time = Time (hour: int) (minute: int) (second: int) (microsecond: int)

datatype datetime = Datetime (date_of: date) (time_of: time)

record timedelta =
  days :: int
  seconds :: int
  microseconds :: int

text \<open>
  The proleptic Gregorian ordinal of a date, as \<^verbatim>\<open>date.toordinal\<close> computes it.
  A Python \<^verbatim>\<open>date\<close> has a month in 1..12 by construction, and the table of the
  days before a month is read at such a month only.
\<close>

definition is_leap :: "int \<Rightarrow> bool" where
  "is_leap y = (y mod 4 = 0 \<and> (y mod 100 \<noteq> 0 \<or> y mod 400 = 0))"

definition days_before_year :: "int \<Rightarrow> int" where
  "days_before_year y = (y - 1) * 365 + (y - 1) div 4 - (y - 1) div 100 + (y - 1) div 400"

definition days_before_month :: "int \<Rightarrow> int \<Rightarrow> int" where
  "days_before_month y m =
     [0, 0, 31, 59, 90, 120, 151, 181, 212, 243, 273, 304, 334] ! nat m
       + (if m > 2 \<and> is_leap y then 1 else 0)"

definition toordinal :: "date \<Rightarrow> int" where
  "toordinal d = days_before_year (year d) + days_before_month (year d) (month d) + day d"

text \<open>
  \<^verbatim>\<open>timedelta(days, seconds, microseconds)\<close> normalises so that
  \<open>0 \<le> microseconds < 1000000\<close> and \<open>0 \<le> seconds < 86400\<close>.
\<close>

definition mk_timedelta :: "int \<Rightarrow> int \<Rightarrow> int \<Rightarrow> timedelta" where
  "mk_timedelta d s us =
     (let s' = s + us div 1000000
      in \<lparr>days = d + s' div 86400, seconds = s' mod 86400, microseconds = us mod 1000000\<rparr>)"

definition seconds_of_day :: "time \<Rightarrow> int" where
  "seconds_of_day t = second t + minute t * 60 + hour t * 3600"

text \<open>\<^verbatim>\<open>a - b\<close> on two naive \<^verbatim>\<open>datetime\<close> values.\<close>

definition datetime_sub :: "datetime \<Rightarrow> datetime \<Rightarrow> timedelta" where
  "datetime_sub a b =
     mk_timedelta (toordinal (date_of a) - toordinal (date_of b))
       (seconds_of_day (time_of a) - seconds_of_day (time_of b))
       (microsecond (time_of a) - microsecond (time_of b))"

text \<open>
  \<^verbatim>\<open>dt.datetime.combine(date1, dt.datetime.min.time())\<close>: the date fields of the first
  argument with the time fields of the second. When the first argument is a
  \<^verbatim>\<open>datetime\<close>, its time fields are ignored.
\<close>

definition min_time :: time where
  "min_time = Time 0 0 0 0"

definition combine :: "date \<Rightarrow> time \<Rightarrow> datetime" where
  "combine d t = Datetime d t"

definition epoch :: datetime where
  "epoch = Datetime (Date 1899 12 30) (Time 0 0 0 0)"

text \<open>
  \<^verbatim>\<open>float(delta.days) + (float(delta.seconds) / 86400)\<close>. A Python float is modelled
  by the exact rational number; rounding is not modelled.
\<close>

definition delta_float :: "timedelta \<Rightarrow> rat" where
  "delta_float delta = of_int (days delta) + of_int (seconds delta) / 86400"

text \<open>
  The argument of \<^verbatim>\<open>excel_date\<close>: a \<^verbatim>\<open>date\<close>, a \<^verbatim>\<open>datetime\<close>, a
  \<^verbatim>\<open>pandas.Series\<close> of timestamps, or a value of another type. The result is one
  float or a series of floats.
\<close>

datatype date_arg = ADate date | ADatetime datetime | ASeries "datetime list" | AOther pyval

datatype date_result = RFloat rat | RSeries "rat list"

text \<open>
  \<^verbatim>\<open>
  if isinstance(date1, (dt.datetime, dt.date)):
      if isinstance(date1, dt.date):
          date1 = dt.datetime.combine(date1, dt.datetime.min.time())
      temp = dt.datetime(1899, 12, 30)
      delta = date1 - temp
      return float(delta.days) + (float(delta.seconds) / 86400)
  elif isinstance(date1, pd.Series):
      temp  = pd.Timestamp(dt.datetime(1899, 12, 30))
      delta = date1 - temp
      return (delta.dt.days)+ (delta.dt.seconds / 86400)
  else:
      raise TypeError("Must supply datetime, date or pd.Series")
  \<close>
  The inner test holds for a \<^verbatim>\<open>datetime\<close> as well as for a \<^verbatim>\<open>date\<close>, so both
  go through \<^verbatim>\<open>combine\<close>.
\<close>

definition excel_date :: "date_arg \<Rightarrow> error + date_result" where
  "excel_date date1 =
     (case date1 of
        ADate d \<Rightarrow>
          Inr (RFloat (delta_float (datetime_sub (combine d min_time) epoch)))
      | ADatetime dtm \<Rightarrow>
          Inr (RFloat (delta_float (datetime_sub (combine (date_of dtm) min_time) epoch)))
      | ASeries xs \<Rightarrow>
          Inr (RSeries (map (\<lambda>ts. delta_float (datetime_sub ts epoch)) xs))
      | AOther v \<Rightarrow> Inl (TypeError MustSupplyDate))"

text \<open>
  What the specification gives for one date or timestamp: the formula on the value
  itself, a date counting as midnight.
\<close>

definition spec_excel_date :: "date_arg \<Rightarrow> error + date_result" where
  "spec_excel_date date1 =
     (case date1 of
        ADate d \<Rightarrow> Inr (RFloat (delta_float (datetime_sub (Datetime d min_time) epoch)))
      | ADatetime dtm \<Rightarrow> Inr (RFloat (delta_float (datetime_sub dtm epoch)))
      | ASeries xs \<Rightarrow> Inr (RSeries (map (\<lambda>ts. delta_float (datetime_sub ts epoch)) xs))
      | AOther v \<Rightarrow> Inl (TypeError MustSupplyDate))"

text \<open>
  Proof device: the value of a reversed column string, least significant letter first.
\<close>

fun lsd_value :: "string \<Rightarrow> int" where
  "lsd_value [] = 0"
| "lsd_value (c # cs) = (of_char c - 64) + 26 * lsd_value cs"

section \<open>Properties of the column conversions\<close>

lemma col2num_loop_lsd:
  "col2num_loop xs expn col_num = col_num + 26 ^ expn * lsd_value xs"
  by (induction xs arbitrary: expn col_num) (simp_all add: algebra_simps)

lemma col2num_loop_rev: "col2num_loop (rev s) 0 0 = lsd_value (rev s)"
  by (simp add: col2num_loop_lsd)

lemma num2col_loop_acc: "num2col_loop n acc = num2col_loop n [] @ acc"
proof (induction "nat n" arbitrary: n acc rule: less_induct)
  case less
  show ?case
  proof (cases "n > 0")
    case True
    let ?q = "(n - 1) div 26"
    let ?c = "char_of (65 + (n - 1) mod 26) :: char"
    have smaller: "nat ?q < nat n"
      using True by simp
    have "num2col_loop n acc = num2col_loop ?q (?c # acc)"
      using True by (subst num2col_loop.simps) simp
    also have "\<dots> = num2col_loop ?q [] @ (?c # acc)"
      by (rule less[OF smaller])
    also have "\<dots> = (num2col_loop ?q [] @ [?c]) @ acc"
      by simp
    also have "num2col_loop ?q [] @ [?c] = num2col_loop ?q [?c]"
      by (rule less[OF smaller, symmetric])
    also have "num2col_loop ?q [?c] = num2col_loop n []"
      using True by (subst (2) num2col_loop.simps) simp
    finally show ?thesis .
  next
    case False
    then show ?thesis by (simp add: num2col_loop.simps)
  qed
qed

lemma num2col_loop_nonpos: "n \<le> 0 \<Longrightarrow> num2col_loop n acc = acc"
  by (simp add: num2col_loop.simps)

lemma num2col_loop_pos:
  "0 < n \<Longrightarrow>
   num2col_loop n [] = num2col_loop ((n - 1) div 26) [] @ [char_of (65 + (n - 1) mod 26)]"
  by (subst num2col_loop.simps, subst num2col_loop_acc) simp

lemma of_char_letter:
  assumes "0 \<le> r" "r < 26"
  shows "(of_char (char_of (65 + r :: int) :: char) :: int) = 65 + r"
proof -
  have "(65 + r) mod 256 = 65 + r"
    using assms by simp
  then show ?thesis
    by simp
qed

lemma lsd_value_num2col: "0 \<le> n \<Longrightarrow> lsd_value (rev (num2col_loop n [])) = n"
proof (induction "nat n" arbitrary: n rule: less_induct)
  case less
  show ?case
  proof (cases "n = 0")
    case True
    then show ?thesis by (simp add: num2col_loop_nonpos)
  next
    case False
    with less.prems have pos: "0 < n" by simp
    let ?q = "(n - 1) div 26"
    let ?r = "(n - 1) mod 26"
    have smaller: "nat ?q < nat n" and q0: "0 \<le> ?q"
      using pos by simp_all
    have r: "0 \<le> ?r" "?r < 26"
      by simp_all
    have "lsd_value (rev (num2col_loop n [])) =
          (of_char (char_of (65 + ?r) :: char) - 64) + 26 * lsd_value (rev (num2col_loop ?q []))"
      by (simp add: num2col_loop_pos[OF pos])
    also have "\<dots> = (65 + ?r - 64) + 26 * ?q"
      by (simp only: of_char_letter[OF r] less.hyps[OF smaller q0])
    also have "\<dots> = n"
      by simp
    finally show ?thesis .
  qed
qed

lemma num2col_loop_length_pos:
  "0 < n \<Longrightarrow> length (num2col_loop n []) = Suc (length (num2col_loop ((n - 1) div 26) []))"
  by (simp add: num2col_loop_pos)

lemma num2col_length_le1: "n \<le> 26 \<Longrightarrow> length (num2col_loop n []) \<le> 1"
  by (cases "0 < n") (simp_all add: num2col_loop_length_pos num2col_loop_nonpos)

lemma num2col_length_le2: "n \<le> 702 \<Longrightarrow> length (num2col_loop n []) \<le> 2"
proof (cases "0 < n")
  case True
  assume "n \<le> 702"
  then have "(n - 1) div 26 \<le> 26" by simp
  from num2col_length_le1[OF this] True show ?thesis
    by (simp add: num2col_loop_length_pos)
qed (simp add: num2col_loop_nonpos)

lemma num2col_length_le3: "n \<le> 18278 \<Longrightarrow> length (num2col_loop n []) \<le> 3"
proof (cases "0 < n")
  case True
  assume "n \<le> 18278"
  then have "(n - 1) div 26 \<le> 702" by simp
  from num2col_length_le2[OF this] True show ?thesis
    by (simp add: num2col_loop_length_pos)
qed (simp add: num2col_loop_nonpos)

lemma num2col_length_ge1: "1 \<le> n \<Longrightarrow> 1 \<le> length (num2col_loop n [])"
  by (simp add: num2col_loop_length_pos)

lemma num2col_length_ge2: "27 \<le> n \<Longrightarrow> 2 \<le> length (num2col_loop n [])"
proof -
  assume a: "27 \<le> n"
  then have "1 \<le> (n - 1) div 26" by simp
  from num2col_length_ge1[OF this] a show ?thesis
    by (simp add: num2col_loop_length_pos)
qed

lemma num2col_length_ge3: "703 \<le> n \<Longrightarrow> 3 \<le> length (num2col_loop n [])"
proof -
  assume a: "703 \<le> n"
  then have "27 \<le> (n - 1) div 26" by simp
  from num2col_length_ge2[OF this] a show ?thesis
    by (simp add: num2col_loop_length_pos)
qed

lemma num2col_length_ge4: "18279 \<le> n \<Longrightarrow> 4 \<le> length (num2col_loop n [])"
proof -
  assume a: "18279 \<le> n"
  then have "703 \<le> (n - 1) div 26" by simp
  from num2col_length_ge3[OF this] a show ?thesis
    by (simp add: num2col_loop_length_pos)
qed

lemma is_upper_letter: "0 \<le> r \<Longrightarrow> r < 26 \<Longrightarrow> is_upper (char_of (65 + r :: int))"
  by (simp add: is_upper_def of_char_letter)

lemma num2col_loop_upper: "list_all is_upper (num2col_loop n [])"
proof (induction "nat n" arbitrary: n rule: less_induct)
  case less
  show ?case
  proof (cases "0 < n")
    case True
    then have "nat ((n - 1) div 26) < nat n" by simp
    from less[OF this] show ?thesis
      by (simp add: num2col_loop_pos[OF True] is_upper_letter)
  next
    case False
    then show ?thesis by (simp add: num2col_loop_nonpos)
  qed
qed

lemma bijective_digit_div:
  assumes "1 \<le> d" "d \<le> 26"
  shows "(d + 26 * v - 1) div 26 = (v::int)"
proof -
  have "(d + 26 * v - 1) div 26 = ((d - 1) + 26 * v) div 26"
    by (simp add: algebra_simps)
  also have "\<dots> = v + (d - 1) div 26"
    by simp
  also have "\<dots> = v"
    using assms by simp
  finally show ?thesis .
qed

lemma bijective_digit_mod:
  assumes "1 \<le> d" "d \<le> 26"
  shows "(d + 26 * v - 1) mod 26 = (d::int) - 1"
proof -
  have "(d + 26 * v - 1) mod 26 = ((d - 1) + 26 * v) mod 26"
    by (simp add: algebra_simps)
  also have "\<dots> = (d - 1) mod 26"
    by simp
  also have "\<dots> = d - 1"
    using assms by simp
  finally show ?thesis .
qed

lemma lsd_value_upper_nonneg: "list_all is_upper xs \<Longrightarrow> 0 \<le> lsd_value xs"
  by (induction xs) (auto simp: is_upper_def)

lemma num2col_lsd_value: "list_all is_upper xs \<Longrightarrow> num2col_loop (lsd_value xs) [] = rev xs"
proof (induction xs)
  case Nil
  show ?case by (simp add: num2col_loop_nonpos)
next
  case (Cons c cs)
  let ?d = "of_char c - 64 :: int"
  let ?v = "lsd_value cs"
  from Cons.prems have cu: "is_upper c" and cs: "list_all is_upper cs"
    by simp_all
  from cu have d: "1 \<le> ?d" "?d \<le> 26"
    by (simp_all add: is_upper_def)
  have v: "0 \<le> ?v" by (rule lsd_value_upper_nonneg[OF cs])
  have pos: "0 < ?d + 26 * ?v" using d v by simp
  have q: "(?d + 26 * ?v - 1) div 26 = ?v"
    by (rule bijective_digit_div[OF d])
  have r: "(?d + 26 * ?v - 1) mod 26 = ?d - 1"
    by (rule bijective_digit_mod[OF d])
  have c: "char_of (65 + (?d - 1)) = c" by simp
  show ?case
    using num2col_loop_pos[OF pos] Cons.IH[OF cs]
    by (simp only: lsd_value.simps q r c rev.simps)
qed

lemma lsd_value_upper_bound:
  assumes "list_all is_upper xs" "xs \<noteq> []" "length xs \<le> 3"
  shows "1 \<le> lsd_value xs \<and> lsd_value xs \<le> 18278"
proof -
  from assms(2,3) consider a where "xs = [a]" | a b where "xs = [a, b]"
    | a b c where "xs = [a, b, c]"
    by (cases xs; cases "tl xs"; cases "tl (tl xs)"; cases "tl (tl (tl xs))") auto
  then show ?thesis
    using assms(1) by cases (auto simp: is_upper_def)
qed

text \<open>On capital letters the round trip from the letters holds.\<close>

lemma num2col_col2num_capitals:
  assumes "s \<noteq> []" "length s \<le> 3" "list_all is_upper s"
  shows "num2col_of_col2num (PStr s) = Inr s \<and>
         (\<exists>n. col2num (PStr s) = Inr n \<and> 1 \<le> n \<and> n \<le> 18278)"
proof -
  have up: "list_all is_upper (rev s)"
    using assms(3) by simp
  have "num2col_loop (lsd_value (rev s)) [] = s"
    using num2col_lsd_value[OF up] by simp
  moreover have "1 \<le> lsd_value (rev s) \<and> lsd_value (rev s) \<le> 18278"
    using lsd_value_upper_bound[OF up] assms(1,2) by simp
  ultimately show ?thesis
    by (simp add: num2col_of_col2num_def col2num_def num2col_def ebind_def col2num_loop_rev)
qed

section \<open>Properties of the validators\<close>

text \<open>No \<^verbatim>\<open>raise\<close> of a subclass of \<^verbatim>\<open>Error\<close> delivers that subclass.\<close>

lemma raise_new_eq: "raise_new cls = Inl (TypeError InitNeedsArgument)"
  by (simp add: raise_new_def Error_init_def Exception_init_no_instance_def ebind_def)

lemma validate_column_errors: "validate_column col = Inl e \<Longrightarrow> e = ValueError"
  by (auto simp: validate_column_def column_bound_def split: pyval.splits if_splits)

lemma validate_row_errors: "validate_row row = Inl e \<Longrightarrow> e = ValueError"
  by (auto simp: validate_row_def split: pyval.splits option.splits)

lemma py_gt_errors: "py_gt a b = Inl e \<Longrightarrow> \<exists>l r. e = TypeError (Unorderable l r)"
  by (auto simp: py_gt_def split: option.splits)

lemma xl_num2col_errors: "xl_num2col a = Inl e \<Longrightarrow> \<exists>l r. e = TypeError (Unorderable l r)"
  by (auto simp: xl_num2col_def split: option.splits)

lemma ebind_Inl: "ebind m f = Inl e \<longleftrightarrow> m = Inl e \<or> (\<exists>x. m = Inr x \<and> f x = Inl e)"
  by (cases m) (simp_all add: ebind_def)

lemma validate_range_text_never: "validate_range_text rng \<noteq> Inl InvalidRangeError"
  by (auto simp: validate_range_text_def ebind_Inl raise_new_eq
      dest: validate_column_errors validate_row_errors py_gt_errors
      split: pyval.splits option.splits if_splits)

lemma validate_range_coords_never:
  "validate_range_coords rng a b c d \<noteq> Inl InvalidRangeError"
  by (auto simp: validate_range_coords_def ebind_Inl raise_new_eq Let_def
      dest: py_gt_errors xl_num2col_errors
      split: if_splits)

lemma validate_range_never_InvalidRangeError:
  "validate_range rng startrow endrow startcol endcol \<noteq> Inl InvalidRangeError"
  by (auto simp: validate_range_def ebind_Inl validate_range_text_never
      validate_range_coords_never
      dest: validate_column_errors validate_row_errors
      split: if_splits)

lemma cellref_invalid_errors: "cellref_invalid c r k = Inl e \<Longrightarrow> e = TypeError ExpectedString"
  by (auto simp: cellref_invalid_def split: pyval.splits if_splits)

lemma cellref_split_errors: "cellref_split c \<noteq> Inl InvalidCellRefError"
  by (auto simp: cellref_split_def split: pyval.splits list.splits option.splits)

lemma validate_cellref_never_InvalidCellRefError:
  "validate_cellref cellref row col \<noteq> Inl InvalidCellRefError"
  by (auto simp: validate_cellref_def ebind_Inl raise_new_eq cellref_split_errors
      dest: validate_column_errors validate_row_errors cellref_invalid_errors
      split: if_splits)

text \<open>A range text that the pattern does not match ends in \<^verbatim>\<open>AttributeError\<close>.\<close>

lemma validate_range_no_match:
  "range_regex_match s = None \<Longrightarrow>
   validate_range (PStr s) PNone PNone PNone PNone = Inl AttributeError"
  by (simp add: validate_range_def validate_column_def validate_row_def ebind_def
      validate_range_text_def)

text \<open>Integer coordinates: the canonical text when ordered, a failure when inverted.\<close>

lemma validate_range_ordered:
  assumes "sc \<le> ec" "ec \<le> 18278" "sr \<le> er"
  shows "validate_range PNone (PInt sr) (PInt er) (PInt sc) (PInt ec) =
         Inr (PStr (num2col_loop sc [] @ py_str sr @ '':'' @ num2col_loop ec [] @ py_str er))"
  using assms
  by (simp add: validate_range_def validate_column_def column_bound_def validate_row_def
      ebind_def validate_range_coords_def py_gt_def xl_num2col_def py_str_opt_def)

lemma validate_range_inverted:
  assumes "sc \<le> 18278" "ec \<le> 18278" "ec < sc \<or> er < sr"
  shows "validate_range PNone (PInt sr) (PInt er) (PInt sc) (PInt ec) =
         Inl (TypeError InitNeedsArgument)"
  using assms
  by (auto simp: validate_range_def validate_column_def column_bound_def validate_row_def
      ebind_def validate_range_coords_def py_gt_def raise_new_eq)

lemma validate_range_example:
  "validate_range PNone (PInt 1) (PInt 3) (PInt 1) (PInt 2) = Inr (PStr ''A1:B3'')"
  by code_simp

text \<open>
  A cell reference that the strict pattern matches: the row returned is the value of
  the first digit, whatever follows it.
\<close>

lemma digit_not_space: "is_digit d \<Longrightarrow> \<not> int_space d"
  by (simp add: is_digit_def int_space_def Let_def)

lemma digit_not_sign: "is_digit d \<Longrightarrow> d \<noteq> CHR ''+'' \<and> d \<noteq> CHR ''-''"
  by (auto simp: is_digit_def)

lemma py_int_digit: "is_digit d \<Longrightarrow> py_int [d] = Some (of_char d - 48)"
  using digit_not_space[of d] digit_not_sign[of d]
  by (simp add: py_int_def strip_space_def)

lemma validate_cellref_first_digit:
  assumes "cell_regex_match s"
  shows "\<exists>c d rest. s = c # d # rest \<and> is_digit d \<and>
           validate_cellref (PStr s) PNone PNone = Inr (PInt (of_char d - 48), PStr [c])"
proof -
  from assms obtain c tl where s: "s = c # tl" and tl: "1 \<le> length (takeWhile is_digit tl)"
    by (auto simp: cell_regex_match_def digits1_def Let_def split: list.splits option.splits if_splits)
  from tl obtain d rest where tl': "tl = d # rest" and d: "is_digit d"
    by (cases tl) (auto split: if_splits)
  have "validate_cellref (PStr s) PNone PNone = Inr (PInt (of_char d - 48), PStr [c])"
    using assms by (simp add: validate_cellref_def cellref_invalid_def ebind_def
        cellref_split_def s tl' py_int_digit[OF d])
  with s tl' d show ?thesis by blast
qed

lemma validate_cellref_example:
  "validate_cellref (PStr ''B5'') PNone PNone = Inr (PInt 5, PStr ''B'')"
  by code_simp

text \<open>
  The patterns of the validators admit small letters, and no path folds the case: a
  small letter is counted from \<^verbatim>\<open>ord("A")\<close> like any other character. So
  \<^verbatim>\<open>"b"\<close> is column 34, the ordered range \<^verbatim>\<open>"a1:B2"\<close> reaches the
  \<^verbatim>\<open>raise\<close> for an inverted one, and \<^verbatim>\<open>"zzz"\<close> is above the bound.
\<close>

lemma validate_column_small_letter: "validate_column (PStr ''b'') = Inr (Some 34)"
  by code_simp

lemma validate_range_small_letter:
  "validate_range (PStr ''a1:B2'') PNone PNone PNone PNone = Inl (TypeError InitNeedsArgument)
   \<and> validate_range (PStr ''A1:B2'') PNone PNone PNone PNone = Inr (PStr ''A1:B2'')"
  by code_simp

lemma validate_column_small_letters_bound: "validate_column (PStr ''zzz'') = Inl ValueError"
  by code_simp

text \<open>
  \<^verbatim>\<open>excel_date\<close>: on a date the result is the formula of the specification; on a
  \<^verbatim>\<open>datetime\<close> the time of day is dropped and the result is a whole number of days.
\<close>

lemma excel_date_date: "excel_date (ADate d) = spec_excel_date (ADate d)"
  by (simp add: excel_date_def spec_excel_date_def combine_def)

lemma excel_date_ignores_time: "excel_date (ADatetime dtm) = excel_date (ADate (date_of dtm))"
  by (simp add: excel_date_def)

lemma excel_date_whole_days:
  "excel_date (ADatetime dtm) = Inr (RFloat (of_int (toordinal (date_of dtm) - 693594)))"
  by (simp add: excel_date_def combine_def min_time_def epoch_def datetime_sub_def
      mk_timedelta_def seconds_of_day_def delta_float_def toordinal_def days_before_year_def
      days_before_month_def is_leap_def)

lemma excel_date_example: "excel_date (ADate (Date 1900 1 1)) = Inr (RFloat 2)"
  by code_simp

section \<open>The claims\<close>

text \<open>
  C1. For every integer \<open>n\<close> with \<open>1 \<le> n \<le> 18278\<close>, \<^verbatim>\<open>num2col(n)\<close> returns a string
  and \<^verbatim>\<open>col2num\<close> of that string returns \<open>n\<close> again; the string has one to three
  capital letters, the strings on which the converse round trip is stated.
\<close>

theorem C1_col2num_num2col:
  assumes "1 \<le> n" "n \<le> 18278"
  shows "\<exists>s. num2col (PInt n) = Inr s \<and> col2num (PStr s) = Inr n
           \<and> 1 \<le> length s \<and> length s \<le> 3 \<and> list_all is_upper s"
proof -
  have "col2num (PStr (num2col_loop n [])) = Inr n"
    using assms(1) by (simp add: col2num_def col2num_loop_rev lsd_value_num2col)
  then show ?thesis
    using num2col_length_ge1[OF assms(1)] num2col_length_le3[OF assms(2)]
    by (simp add: num2col_def num2col_loop_upper)
qed

theorem C1_col2num_num2col_witness:
  "\<exists>s. num2col (PInt 27) = Inr s \<and> col2num (PStr s) = Inr 27
           \<and> 1 \<le> length s \<and> length s \<le> 3 \<and> list_all is_upper s"
  using C1_col2num_num2col[of 27] by simp

text \<open>
  C2. The claim: for every string that the strict pattern \<^verbatim>\<open>^[A-Za-z]\d+$\<close> matches,
  \<^verbatim>\<open>_validate_cellref(cellref, None, None)\<close> returns the row written in the reference
  with all its digits. The code reads \<^verbatim>\<open>int(cellref[1])\<close>, one character: for
  \<^verbatim>\<open>"B15"\<close> it returns row 1 and column \<^verbatim>\<open>"B"\<close>, not row 15.
\<close>

theorem C2_row_is_first_digit:
  "validate_cellref (PStr ''B15'') PNone PNone = Inr (PInt 1, PStr ''B'')"
  by code_simp

text \<open>
  C3. The claim: a range text that neither pattern matches, with no coordinates, fails
  with \<^verbatim>\<open>InvalidRangeError\<close>. The code calls \<^verbatim>\<open>match.group(1)\<close> before it tests
  \<^verbatim>\<open>match is None\<close>: for \<^verbatim>\<open>"hello"\<close> the failure is an \<^verbatim>\<open>AttributeError\<close>.
\<close>

theorem C3_no_match_AttributeError:
  "range_regex_match ''hello'' = None \<and>
   validate_range (PStr ''hello'') PNone PNone PNone PNone = Inl AttributeError"
  by code_simp




text \<open>
  C5. The claim: \<^verbatim>\<open>num2col\<close> fails for every integer outside 1..18278. It returns
  the empty string for 0 and \<^verbatim>\<open>"AAAA"\<close> for 18279, and \<^verbatim>\<open>_validate_column\<close>
  accepts 0.
\<close>

theorem C5_counterexample:
  "num2col (PInt 0) = Inr '''' \<and> num2col (PInt 18279) = Inr ''AAAA''
   \<and> validate_column (PInt 0) = Inr (Some 0)"
  by code_simp

text \<open>
  C5, as amended. \<^verbatim>\<open>num2col\<close> returns the empty string for every \<open>n < 1\<close> and, for
  every \<open>n > 18278\<close>, a string of four or more capital letters that \<^verbatim>\<open>col2num\<close>
  converts back to \<open>n\<close>. The bound is enforced by \<^verbatim>\<open>_validate_column\<close>, which fails
  with \<^verbatim>\<open>ValueError\<close> exactly for the integers above 18278.
\<close>

theorem C5_amended:
  "(n < 1 \<longrightarrow> num2col (PInt n) = Inr '''') \<and>
   (18278 < n \<longrightarrow>
      (\<exists>s. num2col (PInt n) = Inr s \<and> 4 \<le> length s \<and> list_all is_upper s
           \<and> col2num (PStr s) = Inr n)) \<and>
   (validate_column (PInt n) = Inl ValueError \<longleftrightarrow> 18278 < n)"
proof (intro conjI impI)
  assume "n < 1"
  then show "num2col (PInt n) = Inr ''''"
    by (simp add: num2col_def num2col_loop_nonpos)
next
  assume big: "18278 < n"
  then have "18279 \<le> n" and "0 \<le> n" by simp_all
  then show "\<exists>s. num2col (PInt n) = Inr s \<and> 4 \<le> length s \<and> list_all is_upper s
           \<and> col2num (PStr s) = Inr n"
    using num2col_length_ge4[of n]
    by (simp add: num2col_def col2num_def col2num_loop_rev lsd_value_num2col num2col_loop_upper)
next
  show "validate_column (PInt n) = Inl ValueError \<longleftrightarrow> 18278 < n"
    by (simp add: validate_column_def column_bound_def)
qed

theorem C5_amended_witness:
  "num2col (PInt 0) = Inr '''' \<and> validate_column (PInt 18279) = Inl ValueError
   \<and> (\<exists>s. num2col (PInt 18279) = Inr s \<and> 4 \<le> length s)"
  using C5_amended[of 0] C5_amended[of 18279] by auto

text \<open>
  C6. The claim: for every string \<open>s\<close> of one to three ASCII letters, capital or small,
  \<^verbatim>\<open>num2col(col2num(s)) == s.upper()\<close>. The patterns of the code admit small
  letters, and \<^verbatim>\<open>col2num\<close> counts them from \<^verbatim>\<open>ord("A")\<close> without folding the
  case: for \<^verbatim>\<open>"a"\<close> it gives 33 and the round trip gives \<^verbatim>\<open>"AG"\<close>, not \<^verbatim>\<open>"A"\<close>.
\<close>

theorem C6_small_letter_not_folded:
  "col2num (PStr ''a'') = Inr 33 \<and> num2col_of_col2num (PStr ''a'') = Inr ''AG''
   \<and> ascii_upper ''a'' = ''A''"
  by code_simp

text \<open>
  C7. The claim: built from four coordinates, the range is returned in its canonical
  text, and an inverted rectangle fails with \<^verbatim>\<open>InvalidRangeError\<close>. The canonical
  text is returned (\<open>validate_range_ordered\<close>); for the inverted rectangle with rows 3
  and 1 the code reaches \<^verbatim>\<open>raise InvalidRangeError(...)\<close>, and the constructor of the
  exception fails in \<^verbatim>\<open>Exception.__init__()\<close>: the failure is a \<^verbatim>\<open>TypeError\<close>.
\<close>

theorem C7_inverted_TypeError:
  "validate_range PNone (PInt 3) (PInt 1) (PInt 1) (PInt 2) = Inl (TypeError InitNeedsArgument)"
  by code_simp

text \<open>
  C8. The claim: \<^verbatim>\<open>_validate_cellref\<close> fails with \<^verbatim>\<open>InvalidCellRefError\<close> when the
  reference and the coordinates are all absent or all present. The code reaches
  \<^verbatim>\<open>raise InvalidCellRefError(...)\<close> in both cases, and the constructor of the exception
  fails in \<^verbatim>\<open>Exception.__init__()\<close>: the failure is a \<^verbatim>\<open>TypeError\<close>.
\<close>

theorem C8_TypeError:
  "validate_cellref PNone PNone PNone = Inl (TypeError InitNeedsArgument)
   \<and> validate_cellref (PStr ''B5'') (PInt 5) (PInt 2) = Inl (TypeError InitNeedsArgument)"
  by code_simp

text \<open>
  C9. The claim: for every date or datetime, \<^verbatim>\<open>excel_date\<close> returns the days and the
  fraction of the day since 1899-12-30, so that midday of 1899-12-31 gives 1.5. The
  code passes a \<^verbatim>\<open>datetime\<close> through \<^verbatim>\<open>combine\<close> with midnight, which drops its
  time: midday of 1899-12-31 gives 1, where the formula of the claim gives 3/2.
\<close>

theorem C9_time_dropped:
  "excel_date (ADatetime (Datetime (Date 1899 12 31) (Time 12 0 0 0))) = Inr (RFloat 1)
   \<and> spec_excel_date (ADatetime (Datetime (Date 1899 12 31) (Time 12 0 0 0)))
       = Inr (RFloat (3 / 2))"
  by code_simp

text \<open>
  C10. With no range text and no coordinate, \<^verbatim>\<open>_validate_range\<close> fails with the
  \<^verbatim>\<open>TypeError\<close> of the comparison \<^verbatim>\<open>None > None\<close>
  (\<^verbatim>\<open>'>' not supported between instances of 'NoneType' and 'NoneType'\<close>), not with
  \<^verbatim>\<open>InvalidRangeError\<close>; \<^verbatim>\<open>read_dataframe(sheet)\<close> without range arguments, on
  an open workbook and an existing sheet, ends in that failure.
\<close>

theorem C10_all_None_TypeError:
  "validate_range PNone PNone PNone PNone PNone
     = Inl (TypeError (Unorderable NoneType NoneType)) \<and>
   (wb_open st \<noteq> 0 \<and> sheet \<in> set (sheetnames st) \<longrightarrow>
      read_dataframe_range st (PStr sheet) PNone PNone PNone PNone PNone
        = Inl (TypeError (Unorderable NoneType NoneType)))"
proof -
  have "validate_range PNone PNone PNone PNone PNone
          = Inl (TypeError (Unorderable NoneType NoneType))"
    by code_simp
  then show ?thesis
    by (simp add: read_dataframe_range_def validate_workbook_def validate_worksheet_def
        ebind_def)
qed

theorem C10_all_None_TypeError_witness:
  "read_dataframe_range \<lparr>wb_open = 1, sheetnames = [''Sheet1'']\<rparr> (PStr ''Sheet1'')
     PNone PNone PNone PNone PNone = Inl (TypeError (Unorderable NoneType NoneType))"
  using C10_all_None_TypeError[of "\<lparr>wb_open = 1, sheetnames = [''Sheet1'']\<rparr>" "''Sheet1''"]
  by simp

end
